theory Spec2Isabelle
  imports Main
begin

section \<open>JavaScript values\<close>

text \<open>
  The module \<^verbatim>\<open>src/fetchers/axios.ts\<close> handles values whose static types are erased at
  run time: the body of a transport response is whatever the backend sent, the producer
  handed to \<^verbatim>\<open>hookFetch\<close> may resolve with any value, and anything can be thrown. The
  model therefore works on one type of run-time values: the JSON values, \<^verbatim>\<open>undefined\<close>,
  and the two classes of error object the module itself can raise.

  \<^item> \<open>JNum n\<close> is the integer-valued number \<open>n\<close>; \<open>JNaN\<close> is the one number that
    is falsy besides zero.
  \<^item> \<open>JObj ps\<close> is a plain object with the own properties \<open>ps\<close> (the first entry of a
    key is the property).
  \<^item> \<open>BackendFetchErrorObj m e r\<close> is an instance of the class \<^verbatim>\<open>BackendFetchError\<close>
    with display message \<open>m\<close> and the fields \<^verbatim>\<open>error = e\<close>, \<^verbatim>\<open>res = r\<close>; its
    \<^verbatim>\<open>name\<close> is always \<^verbatim>\<open>"BackendFetchError"\<close>.
  \<^item> \<open>TypeErrorObj m\<close> is a \<^verbatim>\<open>TypeError\<close> raised by the runtime with message \<open>m\<close>
    (the wording is the engine's; the model fixes one).
\<close>

datatype jsval =
    JUndefined
  | JNull
  | JBool bool
  | JNum int
  | JNaN
  | JStr string
  | JArr "jsval list"
  | JObj "(string \<times> jsval) list"
  | BackendFetchErrorObj string jsval jsval
  | TypeErrorObj string

text \<open>
  A computation that may throw returns \<open>Inl\<close> of the thrown value or \<open>Inr\<close> of its
  result; \<open>and_then\<close> sequences two of them, the first throw winning.
\<close>

type_synonym 'a throws = "jsval + 'a"

definition and_then :: "'a throws \<Rightarrow> ('a \<Rightarrow> 'b throws) \<Rightarrow> 'b throws" where
  "and_then m f = (case m of Inl e \<Rightarrow> Inl e | Inr x \<Rightarrow> f x)"

text \<open>The truthiness test of \<^verbatim>\<open>!v\<close> and \<^verbatim>\<open>if (v)\<close>.\<close>

fun truthy :: "jsval \<Rightarrow> bool" where
  "truthy JUndefined = False"
| "truthy JNull = False"
| "truthy (JBool b) = b"
| "truthy (JNum n) = (n \<noteq> 0)"
| "truthy JNaN = False"
| "truthy (JStr s) = (s \<noteq> [])"
| "truthy (JArr xs) = True"
| "truthy (JObj ps) = True"
| "truthy (BackendFetchErrorObj m e r) = True"
| "truthy (TypeErrorObj m) = True"

text \<open>
  Property read \<^verbatim>\<open>v.k\<close>. Reading a property of \<^verbatim>\<open>undefined\<close> or \<^verbatim>\<open>null\<close> throws a
  \<^verbatim>\<open>TypeError\<close>; a missing property reads as \<^verbatim>\<open>undefined\<close>. The module reads only the
  names \<^verbatim>\<open>data\<close>, \<^verbatim>\<open>success\<close>, \<^verbatim>\<open>error\<close> and \<^verbatim>\<open>message\<close>, none of which is a built-in
  property of a boolean, number, string or array, so those read as \<^verbatim>\<open>undefined\<close>.
\<close>

fun get_prop :: "jsval \<Rightarrow> string \<Rightarrow> jsval throws" where
  "get_prop JUndefined k = Inl (TypeErrorObj ''Cannot read properties of undefined'')"
| "get_prop JNull k = Inl (TypeErrorObj ''Cannot read properties of null'')"
| "get_prop (JObj ps) k = Inr (case map_of ps k of None \<Rightarrow> JUndefined | Some v \<Rightarrow> v)"
| "get_prop (BackendFetchErrorObj m e r) k =
     Inr (if k = ''message'' then JStr m
          else if k = ''name'' then JStr ''BackendFetchError''
          else if k = ''error'' then e
          else if k = ''res'' then r
          else JUndefined)"
| "get_prop (TypeErrorObj m) k =
     Inr (if k = ''message'' then JStr m
          else if k = ''name'' then JStr ''TypeError''
          else JUndefined)"
| "get_prop v k = Inr JUndefined"

text \<open>
  Decimal digits of an integer, as \<^verbatim>\<open>String(n)\<close> prints an integer-valued number
  of magnitude below \<open>10\<^sup>2\<^sup>1\<close>.
\<close>

function show_nat :: "nat \<Rightarrow> string" where
  "show_nat n =
     (if n < 10 then [char_of (48 + n)]
      else show_nat (n div 10) @ [char_of (48 + n mod 10)])"
  by pat_completeness auto
termination
  by (relation "measure id") auto

definition show_int :: "int \<Rightarrow> string" where
  "show_int i = (if i < 0 then CHR ''-'' # show_nat (nat (- i)) else show_nat (nat i))"

fun join_with :: "string \<Rightarrow> string list \<Rightarrow> string" where
  "join_with sep [] = []"
| "join_with sep [s] = s"
| "join_with sep (s # t # ss) = s @ sep @ join_with sep (t # ss)"

text \<open>
  The string coercion \<^verbatim>\<open>String(v)\<close> that the \<^verbatim>\<open>Error\<close> constructor applies to its
  argument. A plain object prints as \<^verbatim>\<open>[object Object]\<close> through the inherited
  \<^verbatim>\<open>toString\<close>; when it has an own property \<^verbatim>\<open>toString\<close> (data, so not callable) the
  coercion falls through \<^verbatim>\<open>valueOf\<close> and throws a \<^verbatim>\<open>TypeError\<close>. An array joins the
  coercions of its elements with commas, \<^verbatim>\<open>undefined\<close> and \<^verbatim>\<open>null\<close> printing as the
  empty string. An error object prints its name and, when not empty, its message.
\<close>

fun ToString :: "jsval \<Rightarrow> string throws"
  and ToString_elems :: "jsval list \<Rightarrow> string list throws" where
  "ToString JUndefined = Inr ''undefined''"
| "ToString JNull = Inr ''null''"
| "ToString (JBool b) = Inr (if b then ''true'' else ''false'')"
| "ToString (JNum n) = Inr (show_int n)"
| "ToString JNaN = Inr ''NaN''"
| "ToString (JStr s) = Inr s"
| "ToString (JArr xs) =
     (case ToString_elems xs of Inl e \<Rightarrow> Inl e | Inr ss \<Rightarrow> Inr (join_with '','' ss))"
| "ToString (JObj ps) =
     (if map_of ps ''toString'' = None then Inr ''[object Object]''
      else Inl (TypeErrorObj ''Cannot convert object to primitive value''))"
| "ToString (BackendFetchErrorObj m e r) =
     Inr (if m = [] then ''BackendFetchError'' else ''BackendFetchError: '' @ m)"
| "ToString (TypeErrorObj m) =
     Inr (if m = [] then ''TypeError'' else ''TypeError: '' @ m)"
| "ToString_elems [] = Inr []"
| "ToString_elems (x # xs) =
     (case (if x = JUndefined \<or> x = JNull then Inr [] else ToString x) of
        Inl e \<Rightarrow> Inl e
      | Inr s \<Rightarrow> (case ToString_elems xs of Inl e \<Rightarrow> Inl e | Inr ss \<Rightarrow> Inr (s # ss)))"

text \<open>
  The display message that \<^verbatim>\<open>super(m)\<close> gives an \<^verbatim>\<open>Error\<close>: for \<^verbatim>\<open>undefined\<close> no
  own message is set and the inherited empty string shows; a string is taken as it is;
  anything else is coerced.
\<close>

definition Error_message :: "jsval \<Rightarrow> string throws" where
  "Error_message m = (if m = JUndefined then Inr [] else ToString m)"

section \<open>The response validator\<close>

text \<open>
  \<^verbatim>\<open>
  constructor(error: ErrorDescription, res?: AxiosResponse) {
    super(error.message);
    this.name = "BackendFetchError";
    this.error = error;
    this.res = res;
  }
  \<close>
  The constructor reads \<^verbatim>\<open>error.message\<close> before anything else, so it throws when
  \<^verbatim>\<open>error\<close> is \<^verbatim>\<open>undefined\<close> or \<^verbatim>\<open>null\<close>.
\<close>

definition BackendFetchError :: "jsval \<Rightarrow> jsval \<Rightarrow> jsval throws" where
  "BackendFetchError error res =
     and_then (get_prop error ''message'') (\<lambda>m.
     and_then (Error_message m) (\<lambda>s.
     Inr (BackendFetchErrorObj s error res)))"

text \<open>
  How an asynchronous call ends: its promise is fulfilled with a value, rejected with a
  thrown value, never settled, or (for a callee that is not an \<^verbatim>\<open>async\<close> function) the
  call itself throws before returning a promise.
\<close>

datatype outcome =
    Resolves jsval
  | Rejects jsval
  | ThrowsSync jsval
  | NeverSettles

text \<open>
  \<^verbatim>\<open>
  if (!request.data.success) {
    throw new BackendFetchError(request.data.error, request);
  }
  return request as AxiosResponse<SuccessResponse<R>>;
  \<close>
  The part of \<^verbatim>\<open>request\<close> after the transport call has resolved with the response
  \<open>r\<close>.
\<close>

definition request_check :: "jsval \<Rightarrow> jsval throws" where
  "request_check r =
     and_then (get_prop r ''data'') (\<lambda>body.
     and_then (get_prop body ''success'') (\<lambda>success.
       if \<not> truthy success then
         and_then (get_prop r ''data'') (\<lambda>body'.
         and_then (get_prop body' ''error'') (\<lambda>error.
         and_then (BackendFetchError error r) (\<lambda>thrown.
         Inl thrown)))
       else Inr r))"

text \<open>
  \<^verbatim>\<open>request\<close> is an \<^verbatim>\<open>async\<close> function around \<^verbatim>\<open>axiosInstance.request(config)\<close>. The
  transport is outside the module, so the model takes the outcome \<open>ax\<close> of that call as
  its argument. A transport failure passes through as a rejection.
\<close>

definition request :: "outcome \<Rightarrow> outcome" where
  "request ax =
     (case ax of
        Resolves r \<Rightarrow> (case request_check r of Inl e \<Rightarrow> Rejects e | Inr v \<Rightarrow> Resolves v)
      | Rejects e \<Rightarrow> Rejects e
      | ThrowsSync e \<Rightarrow> Rejects e
      | NeverSettles \<Rightarrow> NeverSettles)"

section \<open>The fetch record\<close>

text \<open>
  \<^verbatim>\<open>FetchableState = null | boolean\<close>: \<open>None\<close> is \<^verbatim>\<open>null\<close> (not started or in
  progress), \<open>Some True\<close> is success and \<open>Some False\<close> is failure.
\<close>

type_synonym FetchableState = "bool option"

text \<open>
  The \<^verbatim>\<open>request\<close> field of the record holds a function: first the placeholder
  \<^verbatim>\<open>async () => null\<close>, then the closure \<^verbatim>\<open>fetchData\<close>.
\<close>

datatype action = AsyncNull | FetchData

text \<open>
  The object literal that \<^verbatim>\<open>hookFetch\<close> passes to \<^verbatim>\<open>reactiveFetch\<close>, and the record
  that comes back with the \<^verbatim>\<open>fetch\<close> field added. The field \<^verbatim>\<open>request\<close> is named
  \<open>request_fn\<close> here, apart from the validator.
\<close>

record hook_data =
  data :: jsval
  request_fn :: action
  err :: jsval

record fetch_record = hook_data +
  fetch :: FetchableState

text \<open>
  \<^verbatim>\<open>
  reactive<TData & { fetch: FetchableState }>({ ...data, fetch: defaultFetch })
  \<close>
  The reactive wrapper notifies observers and leaves the values of the fields as they
  are, so the model is the spread object itself.
\<close>

definition reactiveFetch :: "hook_data \<Rightarrow> FetchableState \<Rightarrow> fetch_record" where
  "reactiveFetch d defaultFetch =
     \<lparr>data = data d, request_fn = request_fn d, err = err d, fetch = defaultFetch\<rparr>"

section \<open>The fetch lifecycle\<close>

text \<open>
  \<^verbatim>\<open>
  const fetchData = async (): Promise<void | false> => {
    data.data = null;
    try {
      const res = await fetchFn();
      if (process.env.NODE_ENV === "development") console.log(frmt("Response: "), res);
      if (!res) return (data.fetch = false);
      data.fetch = true;
      data.data = res.data.data as any;
    } catch (error) {
      data.fetch = false;
      data.err = error;
    }
  };
  \<close>
  The body is modelled in the pieces between which control can leave it: the reset
  before the \<^verbatim>\<open>try\<close>, the rest of the \<^verbatim>\<open>try\<close> block once the awaited value \<open>res\<close> is
  there, and the \<^verbatim>\<open>catch\<close> block. The development-only log writes nothing to the
  record and is left out.
\<close>

definition fetchData_reset :: "fetch_record \<Rightarrow> fetch_record" where
  "fetchData_reset d = d\<lparr>data := JNull\<rparr>"

text \<open>
  The statements after the \<^verbatim>\<open>await\<close>: the result is the record as the block leaves
  it, with \<open>Inr\<close> of the value returned or \<open>Inl\<close> of the value thrown by
  \<^verbatim>\<open>res.data.data\<close> (after \<^verbatim>\<open>data.fetch = true\<close> has been written).
\<close>

definition res_data_data :: "jsval \<Rightarrow> jsval throws" where
  "res_data_data res = and_then (get_prop res ''data'') (\<lambda>body. get_prop body ''data'')"

definition try_block :: "jsval \<Rightarrow> fetch_record \<Rightarrow> jsval throws \<times> fetch_record" where
  "try_block res d =
     (if \<not> truthy res then (Inr (JBool False), d\<lparr>fetch := Some False\<rparr>)
      else
        let d1 = d\<lparr>fetch := Some True\<rparr> in
        case res_data_data res of
          Inl e \<Rightarrow> (Inl e, d1)
        | Inr payload \<Rightarrow> (Inr JUndefined, d1\<lparr>data := payload\<rparr>))"

definition catch_block :: "jsval \<Rightarrow> fetch_record \<Rightarrow> fetch_record" where
  "catch_block error d = d\<lparr>fetch := Some False, err := error\<rparr>"

text \<open>
  The continuation of \<^verbatim>\<open>fetchData\<close> when the awaited producer promise has settled:
  \<open>Inl e\<close> for a rejection, \<open>Inr res\<close> for a fulfilment. It gives the outcome of the
  promise that \<^verbatim>\<open>fetchData\<close> returned, and the record.
\<close>

definition fetchData_resume :: "jsval throws \<Rightarrow> fetch_record \<Rightarrow> outcome \<times> fetch_record" where
  "fetchData_resume awaited d =
     (case awaited of
        Inl e \<Rightarrow> (Resolves JUndefined, catch_block e d)
      | Inr res \<Rightarrow>
          (case try_block res d of
             (Inl e, d1) \<Rightarrow> (Resolves JUndefined, catch_block e d1)
           | (Inr v, d1) \<Rightarrow> (Resolves v, d1)))"

text \<open>
  One invocation of \<^verbatim>\<open>fetchData\<close> run until it has settled, with no other invocation
  in between: \<open>out\<close> is the outcome of this invocation's call of the producer. With a
  producer that never settles the invocation stays suspended at the \<^verbatim>\<open>await\<close> for
  ever, after the reset.
\<close>

definition fetchData_run :: "outcome \<Rightarrow> fetch_record \<Rightarrow> outcome \<times> fetch_record" where
  "fetchData_run out d =
     (let d0 = fetchData_reset d in
      case out of
        Resolves res \<Rightarrow> fetchData_resume (Inr res) d0
      | Rejects e \<Rightarrow> fetchData_resume (Inl e) d0
      | ThrowsSync e \<Rightarrow> (Resolves JUndefined, catch_block e d0)
      | NeverSettles \<Rightarrow> (NeverSettles, d0))"

text \<open>
  A producer call that resolved with a response: a truthy value \<open>res\<close> on which
  \<^verbatim>\<open>res.data.data\<close> can be read.
\<close>

definition resolves_with_response :: "outcome \<Rightarrow> bool" where
  "resolves_with_response out =
     (case out of
        Resolves res \<Rightarrow> truthy res \<and> (case res_data_data res of Inl e \<Rightarrow> False | Inr p \<Rightarrow> True)
      | _ \<Rightarrow> False)"

text \<open>Successive invocations, each settled before the next starts.\<close>

fun fetchData_runs :: "outcome list \<Rightarrow> fetch_record \<Rightarrow> fetch_record" where
  "fetchData_runs [] d = d"
| "fetchData_runs (out # outs) d = fetchData_runs outs (snd (fetchData_run out d))"

subsection \<open>Construction and the event loop\<close>

text \<open>
  What exists once \<^verbatim>\<open>hookFetch\<close> has been called: the record \<open>rec\<close> it returned, the
  number \<open>calls\<close> of producer calls made so far, and the invocations of \<^verbatim>\<open>fetchData\<close>
  that are suspended at the \<^verbatim>\<open>await\<close>, oldest first, each with the outcome its producer
  promise has or will have. The producer \<open>fetchFn\<close> is any function from the index of
  the call to the outcome of that call.
\<close>

record world =
  rec :: fetch_record
  calls :: nat
  suspended :: "outcome list"

text \<open>
  A call \<^verbatim>\<open>fetchData()\<close> up to the point where it returns its promise: the reset, the
  call of the producer, and then either the suspension at the \<^verbatim>\<open>await\<close> or, when the
  producer call itself throws, the \<^verbatim>\<open>catch\<close> block at once.
\<close>

definition fetchData :: "(nat \<Rightarrow> outcome) \<Rightarrow> world \<Rightarrow> world" where
  "fetchData fetchFn w =
     (let d0 = fetchData_reset (rec w);
          out = fetchFn (calls w);
          w1 = w\<lparr>rec := d0, calls := Suc (calls w)\<rparr>
      in case out of
           ThrowsSync e \<Rightarrow> w1\<lparr>rec := catch_block e d0\<rparr>
         | _ \<Rightarrow> w1\<lparr>suspended := suspended w1 @ [out]\<rparr>)"

text \<open>
  A later turn of the event loop resumes the suspended invocation number \<open>i\<close>, whose
  producer promise has settled. There is no such turn for an index out of range or for
  a promise that never settles.
\<close>

definition resume :: "nat \<Rightarrow> world \<Rightarrow> world option" where
  "resume i w =
     (if i < length (suspended w) then
        (let rest = take i (suspended w) @ drop (Suc i) (suspended w) in
         case suspended w ! i of
           Resolves res \<Rightarrow>
             Some (w\<lparr>rec := snd (fetchData_resume (Inr res) (rec w)), suspended := rest\<rparr>)
         | Rejects e \<Rightarrow>
             Some (w\<lparr>rec := snd (fetchData_resume (Inl e) (rec w)), suspended := rest\<rparr>)
         | _ \<Rightarrow> None)
      else None)"

text \<open>
  \<^verbatim>\<open>
  const data = reactiveFetch({ data: null, request: async () => null, err: null });
  ...
  data.request = fetchData;
  if (auto) fetchData();
  return data;
  \<close>
  \<^verbatim>\<open>reactiveFetch\<close> is called without its second argument, so \<^verbatim>\<open>defaultFetch\<close> is its
  default \<^verbatim>\<open>null\<close>. The promise of the automatic call is dropped.
\<close>

definition hookFetch :: "(nat \<Rightarrow> outcome) \<Rightarrow> bool \<Rightarrow> world" where
  "hookFetch fetchFn auto =
     (let d = reactiveFetch \<lparr>data = JNull, request_fn = AsyncNull, err = JNull\<rparr> None;
          w = \<lparr>rec = d\<lparr>request_fn := FetchData\<rparr>, calls = 0, suspended = []\<rparr>
      in if auto then fetchData fetchFn w else w)"

section \<open>Basic facts\<close>

lemma and_then_Inr [simp]: "and_then (Inr x) f = f x"
  by (simp add: and_then_def)

lemma and_then_Inl [simp]: "and_then (Inl e) f = Inl e"
  by (simp add: and_then_def)

text \<open>Only an object has a property on which a further property can be read.\<close>

lemma get_prop_twice_truthy:
  "get_prop r k = Inr b \<Longrightarrow> get_prop b k' = Inr s \<Longrightarrow> truthy r"
  by (cases r) auto

lemma request_Resolves:
  "request (Resolves r) = (case request_check r of Inl e \<Rightarrow> Rejects e | Inr v \<Rightarrow> Resolves v)"
  by (simp add: request_def)

lemma request_check_truthy:
  "get_prop r ''data'' = Inr body \<Longrightarrow> get_prop body ''success'' = Inr s \<Longrightarrow> truthy s
     \<Longrightarrow> request_check r = Inr r"
  by (simp add: request_check_def)

lemma request_check_falsy:
  "get_prop r ''data'' = Inr body \<Longrightarrow> get_prop body ''success'' = Inr s \<Longrightarrow> \<not> truthy s
     \<Longrightarrow> \<exists>e. request_check r = Inl e"
  by (simp add: request_check_def and_then_def split: sum.splits)

lemma request_check_no_error:
  "get_prop r ''data'' = Inr body \<Longrightarrow> get_prop body ''success'' = Inr s \<Longrightarrow> \<not> truthy s
     \<Longrightarrow> get_prop body ''error'' = Inr JUndefined
     \<Longrightarrow> request_check r = Inl (TypeErrorObj ''Cannot read properties of undefined'')"
  by (simp add: request_check_def BackendFetchError_def)

lemma res_data_data_eq:
  "get_prop r ''data'' = Inr body \<Longrightarrow> res_data_data r = get_prop body ''data''"
  by (simp add: res_data_data_def)

text \<open>The four ways one settled invocation of \<^verbatim>\<open>fetchData\<close> can go.\<close>

lemma fetchData_run_Rejects:
  "fetchData_run (Rejects e) d =
     (Resolves JUndefined, d\<lparr>data := JNull, fetch := Some False, err := e\<rparr>)"
  by (simp add: fetchData_run_def fetchData_resume_def fetchData_reset_def catch_block_def)

lemma fetchData_run_ThrowsSync:
  "fetchData_run (ThrowsSync e) d =
     (Resolves JUndefined, d\<lparr>data := JNull, fetch := Some False, err := e\<rparr>)"
  by (simp add: fetchData_run_def fetchData_reset_def catch_block_def)

lemma fetchData_run_falsy:
  "\<not> truthy v \<Longrightarrow>
   fetchData_run (Resolves v) d =
     (Resolves (JBool False), d\<lparr>data := JNull, fetch := Some False\<rparr>)"
  by (simp add: fetchData_run_def fetchData_resume_def fetchData_reset_def try_block_def)

lemma fetchData_run_response:
  "truthy res \<Longrightarrow> res_data_data res = Inr payload \<Longrightarrow>
   fetchData_run (Resolves res) d =
     (Resolves JUndefined, d\<lparr>data := payload, fetch := Some True\<rparr>)"
  by (simp add: fetchData_run_def fetchData_resume_def fetchData_reset_def try_block_def)

lemma fetchData_run_unreadable:
  "truthy res \<Longrightarrow> res_data_data res = Inl e \<Longrightarrow>
   fetchData_run (Resolves res) d =
     (Resolves JUndefined, d\<lparr>data := JNull, fetch := Some False, err := e\<rparr>)"
  by (simp add: fetchData_run_def fetchData_resume_def fetchData_reset_def try_block_def
      catch_block_def)

lemma try_block_err: "err (snd (try_block res d)) = err d"
  by (simp add: try_block_def Let_def split: sum.splits)

lemma fetchData_run_response_fields:
  "resolves_with_response out \<Longrightarrow>
   err (snd (fetchData_run out d)) = err d \<and>
   request_fn (snd (fetchData_run out d)) = request_fn d"
  by (cases out)
     (auto simp: resolves_with_response_def fetchData_run_response split: sum.splits)

lemma fetchData_runs_response_fields:
  "list_all resolves_with_response outs \<Longrightarrow>
   err (fetchData_runs outs d) = err d \<and>
   request_fn (fetchData_runs outs d) = request_fn d"
proof (induction outs arbitrary: d)
  case Nil
  then show ?case by simp
next
  case (Cons out outs)
  then show ?case
    using fetchData_run_response_fields [of out d] by simp
qed

lemma fetchData_runs_append:
  "fetchData_runs (outs @ outs') d = fetchData_runs outs' (fetchData_runs outs d)"
  by (induction outs arbitrary: d) simp_all

text \<open>Without the automatic start, construction leaves the initial record.\<close>

lemma hookFetch_manual:
  "hookFetch fetchFn False =
     \<lparr>rec = \<lparr>data = JNull, request_fn = FetchData, err = JNull, fetch = None\<rparr>,
      calls = 0, suspended = []\<rparr>"
  by (simp add: hookFetch_def reactiveFetch_def)

text \<open>
  \<open>fetchData_run\<close> is what the event loop does with one invocation when nothing else
  is suspended: the call, then the turn that resumes it.
\<close>

lemma resume_fetchData:
  assumes "suspended w = []"
    and "fetchFn (calls w) = Resolves v \<or> fetchFn (calls w) = Rejects e"
  shows "resume 0 (fetchData fetchFn w) =
           Some (w\<lparr>rec := snd (fetchData_run (fetchFn (calls w)) (rec w)),
                   calls := Suc (calls w)\<rparr>)"
  using assms
  by (auto simp: resume_def fetchData_def fetchData_run_def Let_def)

section \<open>The validator on malformed envelopes\<close>

text \<open>
  Claim C1, as the code has it. Let the transport response \<open>r\<close> have the body \<open>body\<close>,
  and let \<open>s\<close> be what \<^verbatim>\<open>body.success\<close> reads (\<^verbatim>\<open>undefined\<close> when the discriminant is
  missing). When \<open>s\<close> is falsy, so for a missing or a false discriminant, \<^verbatim>\<open>request\<close>
  rejects and returns no value; with \<^verbatim>\<open>error\<close> absent, the value thrown is the
  \<^verbatim>\<open>TypeError\<close> of reading \<^verbatim>\<open>error.message\<close> in the constructor, not a
  \<^verbatim>\<open>BackendFetchError\<close>; the lifecycle controller records it as a failure and its own
  promise resolves. When \<open>s\<close> is truthy \<^verbatim>\<open>request\<close> returns the response as it is,
  whether \<^verbatim>\<open>data\<close> is present or not: with \<^verbatim>\<open>data\<close> absent the controller records a
  success with \<^verbatim>\<open>data\<close> \<^verbatim>\<open>undefined\<close>.
\<close>

theorem request_malformed:
  assumes body: "get_prop r ''data'' = Inr body"
    and success: "get_prop body ''success'' = Inr s"
  shows "(\<not> truthy s \<longrightarrow>
            (\<exists>e. request (Resolves r) = Rejects e \<and>
                 (get_prop body ''error'' = Inr JUndefined \<longrightarrow>
                    e = TypeErrorObj ''Cannot read properties of undefined'') \<and>
                 fetchData_run (request (Resolves r)) d =
                   (Resolves JUndefined, d\<lparr>data := JNull, fetch := Some False, err := e\<rparr>))) \<and>
         (truthy s \<longrightarrow>
            request (Resolves r) = Resolves r \<and>
            (get_prop body ''data'' = Inr JUndefined \<longrightarrow>
               fetchData_run (request (Resolves r)) d =
                 (Resolves JUndefined, d\<lparr>data := JUndefined, fetch := Some True\<rparr>)))"
proof (cases "truthy s")
  case False
  from request_check_falsy [OF body success False]
  obtain e where e: "request_check r = Inl e" ..
  have rej: "request (Resolves r) = Rejects e"
    by (simp add: request_Resolves e)
  have "get_prop body ''error'' = Inr JUndefined \<longrightarrow>
          e = TypeErrorObj ''Cannot read properties of undefined''"
    using request_check_no_error [OF body success False] e by auto
  with rej False show ?thesis
    by (auto simp: fetchData_run_Rejects)
next
  case True
  have ret: "request (Resolves r) = Resolves r"
    by (simp add: request_Resolves request_check_truthy [OF body success True])
  have r: "truthy r"
    by (rule get_prop_twice_truthy [OF body success])
  have "get_prop body ''data'' = Inr JUndefined \<longrightarrow>
          fetchData_run (Resolves r) d =
            (Resolves JUndefined, d\<lparr>data := JUndefined, fetch := Some True\<rparr>)"
    using fetchData_run_response [OF r, of JUndefined d] res_data_data_eq [OF body] by auto
  with ret True show ?thesis by simp
qed

text \<open>
  The three malformed shapes at concrete responses: \<^verbatim>\<open>{success: false}\<close> and \<^verbatim>\<open>{}\<close>
  reject with the \<^verbatim>\<open>TypeError\<close>; \<^verbatim>\<open>{success: true}\<close> goes through, and a record that
  held \<^verbatim>\<open>7\<close> ends as a success with \<^verbatim>\<open>data\<close> \<^verbatim>\<open>undefined\<close>.
\<close>

theorem request_malformed_witness:
  "request (Resolves (JObj [(''data'', JObj [(''success'', JBool False)])]))
     = Rejects (TypeErrorObj ''Cannot read properties of undefined'') \<and>
   request (Resolves (JObj [(''data'', JObj [])]))
     = Rejects (TypeErrorObj ''Cannot read properties of undefined'') \<and>
   fetchData_run (request (Resolves (JObj [(''data'', JObj [(''success'', JBool True)])])))
       \<lparr>data = JNum 7, request_fn = FetchData, err = JNull, fetch = None\<rparr>
     = (Resolves JUndefined,
        \<lparr>data = JUndefined, request_fn = FetchData, err = JNull, fetch = Some True\<rparr>)"
  using
    request_malformed [of "JObj [(''data'', JObj [(''success'', JBool False)])]"
      "JObj [(''success'', JBool False)]" "JBool False"
      "\<lparr>data = JNum 7, request_fn = FetchData, err = JNull, fetch = None\<rparr>"]
    request_malformed [of "JObj [(''data'', JObj [])]" "JObj []" JUndefined
      "\<lparr>data = JNum 7, request_fn = FetchData, err = JNull, fetch = None\<rparr>"]
    request_malformed [of "JObj [(''data'', JObj [(''success'', JBool True)])]"
      "JObj [(''success'', JBool True)]" "JBool True"
      "\<lparr>data = JNum 7, request_fn = FetchData, err = JNull, fetch = None\<rparr>"]
  by auto

text \<open>
  As the claim is written it fails: the envelope \<^verbatim>\<open>{success: true}\<close> has no \<^verbatim>\<open>data\<close>,
  and \<^verbatim>\<open>request\<close> returns the response that carries it.
\<close>

theorem request_malformed_counterexample:
  "map_of [(''success'', JBool True)] ''data'' = None \<and>
   request (Resolves (JObj [(''data'', JObj [(''success'', JBool True)])]))
     = Resolves (JObj [(''data'', JObj [(''success'', JBool True)])])"
  by (simp add: request_def request_check_def)

section \<open>The validator on well-formed envelopes\<close>

text \<open>
  Claim C2, as the code has it. For a response \<open>r\<close> whose body is a Success envelope
  (\<^verbatim>\<open>success\<close> is \<^verbatim>\<open>true\<close>, \<^verbatim>\<open>data\<close> reads \<open>payload\<close>), \<^verbatim>\<open>request\<close> returns the
  response \<open>r\<close> itself, envelope and all, not the payload. The payload is what
  \<^verbatim>\<open>res.data.data\<close> reads from that result, and the lifecycle controller stores it
  unchanged in \<^verbatim>\<open>data\<close>.
\<close>

theorem request_success:
  assumes body: "get_prop r ''data'' = Inr body"
    and success: "get_prop body ''success'' = Inr (JBool True)"
    and payload: "get_prop body ''data'' = Inr payload"
  shows "request (Resolves r) = Resolves r \<and>
         res_data_data r = Inr payload \<and>
         fetchData_run (request (Resolves r)) d =
           (Resolves JUndefined, d\<lparr>data := payload, fetch := Some True\<rparr>)"
proof -
  have ret: "request (Resolves r) = Resolves r"
    using request_check_truthy [OF body success] by (simp add: request_Resolves)
  have unwrap: "res_data_data r = Inr payload"
    by (simp add: res_data_data_eq [OF body] payload)
  have "truthy r"
    by (rule get_prop_twice_truthy [OF body success])
  then show ?thesis
    using ret unwrap by (simp add: fetchData_run_response)
qed

text \<open>The scenario of the specification: the payload \<^verbatim>\<open>{id: 1}\<close> in a Success envelope.\<close>

theorem request_success_witness:
  "request (Resolves (JObj [(''data'',
       JObj [(''success'', JBool True), (''data'', JObj [(''id'', JNum 1)])])]))
     = Resolves (JObj [(''data'',
         JObj [(''success'', JBool True), (''data'', JObj [(''id'', JNum 1)])])]) \<and>
   fetchData_run
       (request (Resolves (JObj [(''data'',
          JObj [(''success'', JBool True), (''data'', JObj [(''id'', JNum 1)])])])))
       \<lparr>data = JNull, request_fn = FetchData, err = JNull, fetch = None\<rparr>
     = (Resolves JUndefined,
        \<lparr>data = JObj [(''id'', JNum 1)], request_fn = FetchData, err = JNull,
         fetch = Some True\<rparr>)"
  using request_success
    [of "JObj [(''data'',
           JObj [(''success'', JBool True), (''data'', JObj [(''id'', JNum 1)])])]"
      "JObj [(''success'', JBool True), (''data'', JObj [(''id'', JNum 1)])]"
      "JObj [(''id'', JNum 1)]"
      "\<lparr>data = JNull, request_fn = FetchData, err = JNull, fetch = None\<rparr>"]
  by auto

text \<open>
  As the claim is written it fails: for the envelope \<^verbatim>\<open>{success: true, data: 1}\<close> the
  result of \<^verbatim>\<open>request\<close> is the response, which is not the payload \<^verbatim>\<open>1\<close>.
\<close>

theorem request_success_counterexample:
  "request (Resolves (JObj [(''data'', JObj [(''success'', JBool True), (''data'', JNum 1)])]))
     = Resolves (JObj [(''data'', JObj [(''success'', JBool True), (''data'', JNum 1)])]) \<and>
   request (Resolves (JObj [(''data'', JObj [(''success'', JBool True), (''data'', JNum 1)])]))
     \<noteq> Resolves (JNum 1)"
  by (simp add: request_def request_check_def)

text \<open>
  Claim C7. For a response \<open>r\<close> whose body is a Failure envelope (\<^verbatim>\<open>success\<close> is
  \<^verbatim>\<open>false\<close>, \<^verbatim>\<open>error\<close> is present with the string \<open>m\<close> as its \<^verbatim>\<open>message\<close>),
  \<^verbatim>\<open>request\<close> throws a \<^verbatim>\<open>BackendFetchError\<close> whose message is \<open>m\<close>, whose \<^verbatim>\<open>error\<close>
  field is the embedded description and whose \<^verbatim>\<open>res\<close> field is the response \<open>r\<close>. The
  response is optional for the class: constructed without it, the instance has
  \<^verbatim>\<open>res\<close> \<^verbatim>\<open>undefined\<close>.
\<close>

theorem request_failure:
  assumes body: "get_prop r ''data'' = Inr body"
    and success: "get_prop body ''success'' = Inr (JBool False)"
    and error: "get_prop body ''error'' = Inr error"
    and message: "get_prop error ''message'' = Inr (JStr m)"
  shows "request (Resolves r) = Rejects (BackendFetchErrorObj m error r) \<and>
         get_prop (BackendFetchErrorObj m error r) ''message'' = Inr (JStr m) \<and>
         get_prop (BackendFetchErrorObj m error r) ''error'' = Inr error \<and>
         get_prop (BackendFetchErrorObj m error r) ''res'' = Inr r \<and>
         BackendFetchError error JUndefined = Inr (BackendFetchErrorObj m error JUndefined)"
  using assms
  by (simp add: request_def request_check_def BackendFetchError_def Error_message_def)

text \<open>
  The scenario of the specification: \<^verbatim>\<open>{success: false, error: {message: "not found",
  code: 404}}\<close>.
\<close>

theorem request_failure_witness:
  "request (Resolves (JObj [(''data'', JObj [(''success'', JBool False),
       (''error'', JObj [(''message'', JStr ''not found''), (''code'', JNum 404)])])]))
     = Rejects (BackendFetchErrorObj ''not found''
         (JObj [(''message'', JStr ''not found''), (''code'', JNum 404)])
         (JObj [(''data'', JObj [(''success'', JBool False),
           (''error'', JObj [(''message'', JStr ''not found''), (''code'', JNum 404)])])]))"
  using request_failure
    [of "JObj [(''data'', JObj [(''success'', JBool False),
           (''error'', JObj [(''message'', JStr ''not found''), (''code'', JNum 404)])])]"
      "JObj [(''success'', JBool False),
           (''error'', JObj [(''message'', JStr ''not found''), (''code'', JNum 404)])]"
      "JObj [(''message'', JStr ''not found''), (''code'', JNum 404)]"
      "''not found''"]
  by simp

section \<open>One invocation of the request action\<close>

text \<open>
  Claim C3. When the producer throws the value \<open>e\<close>, by rejecting its promise or by
  throwing from the call itself, or because the validator passed a transport failure
  on, the invocation ends with \<^verbatim>\<open>fetch\<close> \<^verbatim>\<open>false\<close>, \<^verbatim>\<open>data\<close> \<^verbatim>\<open>null\<close> and \<^verbatim>\<open>err\<close> equal
  to \<open>e\<close>, whatever the record held before, and the promise of the invocation is
  fulfilled, not rejected.
\<close>

theorem fetchData_producer_throws:
  "fetchData_run (Rejects e) d =
     (Resolves JUndefined, d\<lparr>data := JNull, fetch := Some False, err := e\<rparr>) \<and>
   fetchData_run (ThrowsSync e) d =
     (Resolves JUndefined, d\<lparr>data := JNull, fetch := Some False, err := e\<rparr>) \<and>
   fetchData_run (request (Rejects e)) d =
     (Resolves JUndefined, d\<lparr>data := JNull, fetch := Some False, err := e\<rparr>)"
  by (simp add: fetchData_run_Rejects fetchData_run_ThrowsSync request_def)

text \<open>
  Claim C4, as the code has it. When the producer resolves with the sentinel
  \<^verbatim>\<open>false\<close>, the invocation ends with \<^verbatim>\<open>fetch\<close> \<^verbatim>\<open>false\<close> and \<^verbatim>\<open>data\<close> \<^verbatim>\<open>null\<close>, its
  promise is fulfilled with \<^verbatim>\<open>false\<close>, and \<^verbatim>\<open>err\<close> is what it was before the
  invocation: no error object is made, and none is cleared.
\<close>

theorem fetchData_abort:
  "fetchData_run (Resolves (JBool False)) d =
     (Resolves (JBool False), d\<lparr>data := JNull, fetch := Some False\<rparr>) \<and>
   err (snd (fetchData_run (Resolves (JBool False)) d)) = err d"
  by (simp add: fetchData_run_falsy)

text \<open>
  As the claim is written it fails: on a fresh record, an invocation whose producer
  throws \<^verbatim>\<open>"boom"\<close> followed by one whose producer returns the sentinel leaves
  \<^verbatim>\<open>err\<close> at \<^verbatim>\<open>"boom"\<close>, not at \<^verbatim>\<open>null\<close>.
\<close>

theorem fetchData_abort_counterexample:
  "fetchData_runs [Rejects (JStr ''boom''), Resolves (JBool False)]
      \<lparr>data = JNull, request_fn = FetchData, err = JNull, fetch = None\<rparr>
     = \<lparr>data = JNull, request_fn = FetchData, err = JStr ''boom'', fetch = Some False\<rparr> \<and>
   err (fetchData_runs [Rejects (JStr ''boom''), Resolves (JBool False)]
      \<lparr>data = JNull, request_fn = FetchData, err = JNull, fetch = None\<rparr>) \<noteq> JNull"
  by (simp add: fetchData_run_falsy fetchData_run_Rejects)

text \<open>
  Claim C5. When the producer resolves with a response \<open>res\<close> (a truthy value on which
  \<^verbatim>\<open>res.data.data\<close> reads \<open>payload\<close>), the invocation ends with \<^verbatim>\<open>fetch\<close> \<^verbatim>\<open>true\<close> and
  \<^verbatim>\<open>data\<close> equal to \<open>payload\<close>. When every invocation since construction has resolved
  with a response, \<^verbatim>\<open>err\<close> is still \<^verbatim>\<open>null\<close>.
\<close>

theorem fetchData_producer_resolves:
  assumes res: "truthy res"
    and payload: "res_data_data res = Inr payload"
  shows "fetchData_run (Resolves res) d =
           (Resolves JUndefined, d\<lparr>data := payload, fetch := Some True\<rparr>) \<and>
         (list_all resolves_with_response outs \<longrightarrow>
            fetchData_runs (outs @ [Resolves res]) (rec (hookFetch fetchFn False)) =
              \<lparr>data = payload, request_fn = FetchData, err = JNull, fetch = Some True\<rparr>)"
proof -
  have one: "fetchData_run (Resolves res) d' =
      (Resolves JUndefined, d'\<lparr>data := payload, fetch := Some True\<rparr>)" for d'
    by (rule fetchData_run_response [OF res payload])
  have "fetchData_runs (outs @ [Resolves res]) (rec (hookFetch fetchFn False)) =
      \<lparr>data = payload, request_fn = FetchData, err = JNull, fetch = Some True\<rparr>"
    if outs: "list_all resolves_with_response outs"
  proof -
    let ?d = "fetchData_runs outs (rec (hookFetch fetchFn False))"
    have "err ?d = JNull" and "request_fn ?d = FetchData"
      using fetchData_runs_response_fields [OF outs, of "rec (hookFetch fetchFn False)"]
      by (simp_all add: hookFetch_manual)
    then have "?d\<lparr>data := payload, fetch := Some True\<rparr> =
        \<lparr>data = payload, request_fn = FetchData, err = JNull, fetch = Some True\<rparr>"
      by (cases ?d) simp
    then show ?thesis
      by (simp add: fetchData_runs_append one)
  qed
  with one show ?thesis by simp
qed

text \<open>Two successive successes after construction; the second payload is \<^verbatim>\<open>{id: 1}\<close>.\<close>

theorem fetchData_producer_resolves_witness:
  "fetchData_runs
     [Resolves (JObj [(''data'', JObj [(''success'', JBool True), (''data'', JNum 1)])]),
      Resolves (JObj [(''data'',
        JObj [(''success'', JBool True), (''data'', JObj [(''id'', JNum 1)])])])]
     (rec (hookFetch (\<lambda>n. NeverSettles) False))
   = \<lparr>data = JObj [(''id'', JNum 1)], request_fn = FetchData, err = JNull,
      fetch = Some True\<rparr>"
  using fetchData_producer_resolves
    [of "JObj [(''data'',
           JObj [(''success'', JBool True), (''data'', JObj [(''id'', JNum 1)])])]"
      "JObj [(''id'', JNum 1)]"
      "\<lparr>data = JNull, request_fn = FetchData, err = JNull, fetch = None\<rparr>"
      "[Resolves (JObj [(''data'', JObj [(''success'', JBool True), (''data'', JNum 1)])])]"
      "\<lambda>n. NeverSettles"]
  by (simp add: res_data_data_def resolves_with_response_def)

text \<open>
  Claim C9. Nothing but the \<^verbatim>\<open>catch\<close> block writes \<^verbatim>\<open>err\<close>: the reset and the \<^verbatim>\<open>try\<close>
  block leave it as it is. So after an invocation that failed with \<open>e\<close>, an invocation
  that resolves with a response ends with \<^verbatim>\<open>fetch\<close> \<^verbatim>\<open>true\<close>, the new payload in
  \<^verbatim>\<open>data\<close>, and \<open>e\<close> still in \<^verbatim>\<open>err\<close>; and one that aborts ends with \<^verbatim>\<open>fetch\<close>
  \<^verbatim>\<open>false\<close> and \<open>e\<close> still in \<^verbatim>\<open>err\<close>.
\<close>

theorem fetchData_keeps_stale_err:
  "err (snd (try_block res d)) = err d \<and>
   err (fetchData_reset d) = err d \<and>
   (truthy res \<and> res_data_data res = Inr payload \<longrightarrow>
      fetchData_runs [Rejects e, Resolves res] d =
        d\<lparr>data := payload, fetch := Some True, err := e\<rparr>) \<and>
   (\<not> truthy v \<longrightarrow>
      fetchData_runs [Rejects e, Resolves v] d =
        d\<lparr>data := JNull, fetch := Some False, err := e\<rparr>)"
  by (simp add: try_block_err fetchData_reset_def fetchData_run_Rejects fetchData_run_response
      fetchData_run_falsy)

text \<open>
  On a fresh record: a failure with \<^verbatim>\<open>"boom"\<close> and then a success with payload
  \<^verbatim>\<open>1\<close>; the same failure and then a producer that resolves with \<^verbatim>\<open>null\<close>.
\<close>

theorem fetchData_keeps_stale_err_witness:
  "fetchData_runs
     [Rejects (JStr ''boom''),
      Resolves (JObj [(''data'', JObj [(''success'', JBool True), (''data'', JNum 1)])])]
     \<lparr>data = JNull, request_fn = FetchData, err = JNull, fetch = None\<rparr>
   = \<lparr>data = JNum 1, request_fn = FetchData, err = JStr ''boom'', fetch = Some True\<rparr> \<and>
   fetchData_runs [Rejects (JStr ''boom''), Resolves JNull]
     \<lparr>data = JNull, request_fn = FetchData, err = JNull, fetch = None\<rparr>
   = \<lparr>data = JNull, request_fn = FetchData, err = JStr ''boom'', fetch = Some False\<rparr>"
  using fetchData_keeps_stale_err
    [of "JObj [(''data'', JObj [(''success'', JBool True), (''data'', JNum 1)])]"
      "\<lparr>data = JNull, request_fn = FetchData, err = JNull, fetch = None\<rparr>"
      "JNum 1" "JStr ''boom''" JNull]
  by (simp add: res_data_data_def)

text \<open>
  Claim C10. The test \<^verbatim>\<open>if (!res)\<close> is a test of falsiness. The falsy values are
  \<^verbatim>\<open>undefined\<close>, \<^verbatim>\<open>null\<close>, \<^verbatim>\<open>false\<close>, \<^verbatim>\<open>0\<close>, \<^verbatim>\<open>NaN\<close> and the empty string, and for
  each of them as the value the producer resolves with, the invocation takes the abort
  path: \<^verbatim>\<open>fetch\<close> \<^verbatim>\<open>false\<close>, \<^verbatim>\<open>data\<close> \<^verbatim>\<open>null\<close>, \<^verbatim>\<open>err\<close> untouched, and no payload read
  (on \<^verbatim>\<open>null\<close> and \<^verbatim>\<open>undefined\<close> the read would have thrown).
\<close>

theorem fetchData_falsy_aborts:
  "(\<not> truthy v) = (v \<in> {JUndefined, JNull, JBool False, JNum 0, JNaN, JStr ''''}) \<and>
   (\<not> truthy v \<longrightarrow>
      fetchData_run (Resolves v) d =
        (Resolves (JBool False), d\<lparr>data := JNull, fetch := Some False\<rparr>))"
  by (cases v) (auto simp: fetchData_run_falsy)

text \<open>The abort path at \<^verbatim>\<open>null\<close>, \<^verbatim>\<open>0\<close>, the empty string and \<^verbatim>\<open>undefined\<close>.\<close>

theorem fetchData_falsy_aborts_witness:
  "fetchData_run (Resolves JNull)
       \<lparr>data = JNum 7, request_fn = FetchData, err = JNull, fetch = Some True\<rparr>
     = (Resolves (JBool False),
        \<lparr>data = JNull, request_fn = FetchData, err = JNull, fetch = Some False\<rparr>) \<and>
   fetchData_run (Resolves (JNum 0))
       \<lparr>data = JNum 7, request_fn = FetchData, err = JNull, fetch = Some True\<rparr>
     = (Resolves (JBool False),
        \<lparr>data = JNull, request_fn = FetchData, err = JNull, fetch = Some False\<rparr>) \<and>
   fetchData_run (Resolves (JStr ''''))
       \<lparr>data = JNum 7, request_fn = FetchData, err = JNull, fetch = Some True\<rparr>
     = (Resolves (JBool False),
        \<lparr>data = JNull, request_fn = FetchData, err = JNull, fetch = Some False\<rparr>) \<and>
   fetchData_run (Resolves JUndefined)
       \<lparr>data = JNum 7, request_fn = FetchData, err = JNull, fetch = Some True\<rparr>
     = (Resolves (JBool False),
        \<lparr>data = JNull, request_fn = FetchData, err = JNull, fetch = Some False\<rparr>)"
  using
    fetchData_falsy_aborts [of JNull
      "\<lparr>data = JNum 7, request_fn = FetchData, err = JNull, fetch = Some True\<rparr>"]
    fetchData_falsy_aborts [of "JNum 0"
      "\<lparr>data = JNum 7, request_fn = FetchData, err = JNull, fetch = Some True\<rparr>"]
    fetchData_falsy_aborts [of "JStr ''''"
      "\<lparr>data = JNum 7, request_fn = FetchData, err = JNull, fetch = Some True\<rparr>"]
    fetchData_falsy_aborts [of JUndefined
      "\<lparr>data = JNum 7, request_fn = FetchData, err = JNull, fetch = Some True\<rparr>"]
  by simp

section \<open>Timing: the reset and the automatic start\<close>

text \<open>
  Claim C6. Whatever the record holds and whatever the producer does, when the call
  of \<^verbatim>\<open>fetchData\<close> returns its promise \<^verbatim>\<open>data\<close> is \<^verbatim>\<open>null\<close>. Unless the producer call
  itself threw, nothing else of the record has changed at that point and the invocation
  is suspended at the \<^verbatim>\<open>await\<close>, behind the ones suspended before it; with a producer
  that never settles the record stays so.
\<close>

theorem fetchData_resets_data:
  "data (rec (fetchData fetchFn w)) = JNull \<and>
   fetchData_run NeverSettles d = (NeverSettles, d\<lparr>data := JNull\<rparr>) \<and>
   ((\<forall>e. fetchFn (calls w) \<noteq> ThrowsSync e) \<longrightarrow>
      rec (fetchData fetchFn w) = (rec w)\<lparr>data := JNull\<rparr> \<and>
      suspended (fetchData fetchFn w) = suspended w @ [fetchFn (calls w)])"
  by (cases "fetchFn (calls w)")
     (simp_all add: fetchData_def fetchData_run_def fetchData_reset_def catch_block_def Let_def)

text \<open>A record that shows the result \<^verbatim>\<open>"old"\<close> of an earlier success, refetched.\<close>

theorem fetchData_resets_data_witness:
  "fetchData (\<lambda>n. Resolves (JNum 5))
      \<lparr>rec = \<lparr>data = JStr ''old'', request_fn = FetchData, err = JNull, fetch = Some True\<rparr>,
       calls = 3, suspended = []\<rparr>
   = \<lparr>rec = \<lparr>data = JNull, request_fn = FetchData, err = JNull, fetch = Some True\<rparr>,
      calls = 4, suspended = [Resolves (JNum 5)]\<rparr>"
  using fetchData_resets_data
    [of "\<lambda>n. Resolves (JNum 5)"
      "\<lparr>rec = \<lparr>data = JStr ''old'', request_fn = FetchData, err = JNull, fetch = Some True\<rparr>,
        calls = 3, suspended = []\<rparr>"]
  by (simp add: fetchData_def fetchData_reset_def)

text \<open>
  Claim C8. \<^verbatim>\<open>hookFetch\<close> with \<^verbatim>\<open>auto\<close> true calls the producer exactly once during
  construction (and not at all with \<^verbatim>\<open>auto\<close> false), and returns the record with
  \<^verbatim>\<open>request\<close> bound to \<^verbatim>\<open>fetchData\<close> and \<^verbatim>\<open>data\<close> \<^verbatim>\<open>null\<close>. The \<^verbatim>\<open>fetch\<close> field of a
  record made by \<^verbatim>\<open>reactiveFetch\<close> is the default given, here \<^verbatim>\<open>null\<close>. When the
  producer is asynchronous, so that its call does not throw, the automatic invocation
  is still suspended when construction returns, and the record is the initial one:
  \<^verbatim>\<open>data\<close> \<^verbatim>\<open>null\<close>, \<^verbatim>\<open>err\<close> \<^verbatim>\<open>null\<close>, \<^verbatim>\<open>fetch\<close> \<^verbatim>\<open>null\<close>.
\<close>

theorem hookFetch_auto:
  "calls (hookFetch fetchFn True) = 1 \<and>
   calls (hookFetch fetchFn False) = 0 \<and>
   request_fn (rec (hookFetch fetchFn True)) = FetchData \<and>
   data (rec (hookFetch fetchFn True)) = JNull \<and>
   fetch (reactiveFetch d0 defaultFetch) = defaultFetch \<and>
   ((\<forall>e. fetchFn 0 \<noteq> ThrowsSync e) \<longrightarrow>
      hookFetch fetchFn True =
        \<lparr>rec = \<lparr>data = JNull, request_fn = FetchData, err = JNull, fetch = None\<rparr>,
         calls = 1, suspended = [fetchFn 0]\<rparr>)"
  by (cases "fetchFn 0")
     (simp_all add: hookFetch_def reactiveFetch_def fetchData_def fetchData_reset_def
        catch_block_def Let_def)

text \<open>Construction over a producer that will resolve with a Success envelope.\<close>

theorem hookFetch_auto_witness:
  "hookFetch
     (\<lambda>n. Resolves (JObj [(''data'', JObj [(''success'', JBool True), (''data'', JNum 1)])]))
     True =
     \<lparr>rec = \<lparr>data = JNull, request_fn = FetchData, err = JNull, fetch = None\<rparr>,
      calls = 1,
      suspended =
        [Resolves (JObj [(''data'', JObj [(''success'', JBool True), (''data'', JNum 1)])])]\<rparr>"
  using hookFetch_auto
    [of "\<lambda>n. Resolves (JObj [(''data'', JObj [(''success'', JBool True), (''data'', JNum 1)])])"]
  by simp

end
